theory Spec2Isabelle
  imports Main
begin

section \<open>JavaScript values used by the server\<close>

text \<open>
  The configuration objects of \<^verbatim>\<open>server.js\<close> are typed by their JSDoc
  \<^verbatim>\<open>@typedef\<close>: every property is optional. An omitted property reads as
  \<^verbatim>\<open>undefined\<close>, modelled by \<open>None\<close>. A destructuring default
  \<^verbatim>\<open>{ x = d } = config\<close> replaces \<^verbatim>\<open>undefined\<close> only.
  Numbers (port, debounce) are only passed along and are modelled by \<open>int\<close>.
\<close>

definition orDefault :: "'a option \<Rightarrow> 'a \<Rightarrow> 'a" where
  "orDefault v d = (case v of None \<Rightarrow> d | Some x \<Rightarrow> x)"

text \<open>
  Truthiness, as \<^verbatim>\<open>if (v)\<close> and \<^verbatim>\<open>v || w\<close> read it: \<^verbatim>\<open>undefined\<close> and
  \<^verbatim>\<open>null\<close> are falsy, a string is truthy unless it is empty, an object is truthy.
\<close>

definition truthyString :: "string option \<Rightarrow> bool" where
  "truthyString v = (case v of None \<Rightarrow> False | Some s \<Rightarrow> s \<noteq> [])"

definition truthyObject :: "'a option \<Rightarrow> bool" where
  "truthyObject v = (case v of None \<Rightarrow> False | Some _ \<Rightarrow> True)"

text \<open>\<^verbatim>\<open>s.startsWith('/')\<close>\<close>

definition startsWithSlash :: "string \<Rightarrow> bool" where
  "startsWithSlash s = (case s of [] \<Rightarrow> False | c # _ \<Rightarrow> c = CHR ''/'')"

text \<open>\<^verbatim>\<open>s.lastIndexOf(c)\<close>: the index of the last occurrence, or \<open>-1\<close>.\<close>

fun lastIndexOf :: "string \<Rightarrow> char \<Rightarrow> int" where
  "lastIndexOf [] c = - 1"
| "lastIndexOf (x # xs) c =
     (let r = lastIndexOf xs c
      in if 0 \<le> r then r + 1 else if x = c then 0 else - 1)"

text \<open>
  \<^verbatim>\<open>s.substring(a, b)\<close>: both indices are clamped to \<open>0 .. length s\<close> and swapped
  when \<open>a > b\<close>.
\<close>

definition substring :: "string \<Rightarrow> int \<Rightarrow> int \<Rightarrow> string" where
  "substring s a b =
     (let a' = min (nat a) (length s);
          b' = min (nat b) (length s);
          lo = min a' b';
          hi = max a' b'
      in take (hi - lo) (drop lo s))"

text \<open>\<^verbatim>\<open>Array.prototype.join\<close>, which also renders an array inside a template literal
  (with the separator \<^verbatim>\<open>,\<close>).\<close>

fun join :: "string \<Rightarrow> string list \<Rightarrow> string" where
  "join s [] = []"
| "join s [x] = x"
| "join s (x # y # ys) = x @ s @ join s (y # ys)"


section \<open>The path module of the host\<close>

text \<open>
  \<^verbatim>\<open>path\<close> is Node's module, an external collaborator, and depends on the host
  platform and on the working directory of the process. The server reads
  \<^verbatim>\<open>path.sep\<close> (through \<^verbatim>\<open>toBrowserPath\<close>), \<^verbatim>\<open>path.isAbsolute\<close>,
  \<^verbatim>\<open>path.relative\<close> and \<^verbatim>\<open>process.cwd()\<close>; the record below holds them.
\<close>

record host =
  cwd :: string
  sep :: char
  isAbsolute :: "string \<Rightarrow> bool"
  relative :: "string \<Rightarrow> string \<Rightarrow> string"

text \<open>
  The POSIX variant of the module, after Node's documentation, on path segments:
  \<^verbatim>\<open>isAbsolute\<close> holds of the paths that start with a slash;
  \<^verbatim>\<open>relative(from, to)\<close> resolves both paths against the working directory,
  drops their common leading segments, and climbs with one \<^verbatim>\<open>..\<close> per segment
  left of \<open>from\<close> before descending into what is left of \<open>to\<close>.
\<close>

fun splitSlash :: "string \<Rightarrow> string list" where
  "splitSlash [] = [[]]"
| "splitSlash (c # cs) =
     (if c = CHR ''/'' then [] # splitSlash cs
      else (case splitSlash cs of [] \<Rightarrow> [[c]] | s # ss \<Rightarrow> (c # s) # ss))"

fun normalizeSegments :: "string list \<Rightarrow> string list \<Rightarrow> string list" where
  "normalizeSegments acc [] = rev acc"
| "normalizeSegments acc (s # ss) =
     (if s = [] \<or> s = ''.'' then normalizeSegments acc ss
      else if s = ''..'' then
        normalizeSegments (case acc of [] \<Rightarrow> [] | _ # up \<Rightarrow> up) ss
      else normalizeSegments (s # acc) ss)"

definition posixIsAbsolute :: "string \<Rightarrow> bool" where
  "posixIsAbsolute p = (case p of [] \<Rightarrow> False | c # _ \<Rightarrow> c = CHR ''/'')"

definition posixResolve :: "string \<Rightarrow> string \<Rightarrow> string list" where
  "posixResolve wd p =
     normalizeSegments []
       (splitSlash (if posixIsAbsolute p then p else wd @ ''/'' @ p))"

fun dropCommon :: "string list \<Rightarrow> string list \<Rightarrow> string list \<times> string list" where
  "dropCommon (x # xs) (y # ys) =
     (if x = y then dropCommon xs ys else (x # xs, y # ys))"
| "dropCommon xs ys = (xs, ys)"

definition posixRelative :: "string \<Rightarrow> string \<Rightarrow> string \<Rightarrow> string" where
  "posixRelative wd from to =
     (case dropCommon (posixResolve wd from) (posixResolve wd to) of
        (f, t) \<Rightarrow> join ''/'' (replicate (length f) ''..'' @ t))"

definition posix :: "string \<Rightarrow> host" where
  "posix wd =
     \<lparr> cwd = wd, sep = CHR ''/'', isAbsolute = posixIsAbsolute,
       relative = posixRelative wd \<rparr>"


section \<open>Collaborators of the repository\<close>

text \<open>
  Modelled from the spec: \<^verbatim>\<open>toBrowserPath\<close> of \<^verbatim>\<open>utils/utils.js\<close>, which is
  not among the sources. The spec's path normalizer turns a filesystem path into its
  browser form by converting the separators: every occurrence of the host's separator
  becomes a slash.
\<close>

definition toBrowserPath :: "host \<Rightarrow> string \<Rightarrow> string" where
  "toBrowserPath h filePath =
     map (\<lambda>c. if c = sep h then CHR ''/'' else c) filePath"

text \<open>
  Modelled from the spec: the object \<^verbatim>\<open>compatibilityModes\<close> of
  \<^verbatim>\<open>constants.js\<close>, which is not among the sources. The spec gives the closed
  enumeration \<^verbatim>\<open>none\<close>, \<^verbatim>\<open>modern\<close>, \<^verbatim>\<open>all\<close>; the source names the members
  \<^verbatim>\<open>NONE\<close>, \<^verbatim>\<open>MODERN\<close> and \<^verbatim>\<open>ALL\<close> (here with the prefix \<open>modes_\<close>). The list is
  \<^verbatim>\<open>Object.values(compatibilityModes)\<close>.
\<close>

definition modes_NONE :: string where
  "modes_NONE = ''none''"

definition modes_MODERN :: string where
  "modes_MODERN = ''modern''"

definition modes_ALL :: string where
  "modes_ALL = ''all''"

definition compatibilityModesValues :: "string list" where
  "compatibilityModesValues = [modes_NONE, modes_MODERN, modes_ALL]"


section \<open>Configuration\<close>

text \<open>
  The argument of \<^verbatim>\<open>startServer\<close> (typedef \<^verbatim>\<open>EsDevServerConfig\<close>) and of
  \<^verbatim>\<open>createConfig\<close> (typedef \<^verbatim>\<open>Config\<close>, whose extra property
  \<^verbatim>\<open>appIndexDir\<close> the function never reads). \<open>'b\<close> is the type of the custom
  Babel configuration object, \<open>'m\<close> the type of a user-supplied Koa middleware.
\<close>

record ('b, 'm) config =
  port :: "int option"
  hostname :: "string option"
  rootDir :: "string option"
  appIndex :: "string option"
  moduleDirectories :: "string list option"
  nodeResolve :: "bool option"
  readUserBabelConfig :: "bool option"
  watch :: "bool option"
  openBrowser :: "bool option"
  openPath :: "string option"
  logStartup :: "bool option"
  http2 :: "bool option"
  compatibilityMode :: "string option"
  watchExcludes :: "string list option"
  watchDebounce :: "int option"
  customBabelConfig :: "'b option"
  extraFileExtensions :: "string list option"
  babelExclude :: "string list option"
  babelModernExclude :: "string list option"
  customMiddlewares :: "'m list option"

text \<open>
  The values after destructuring and the resolution of \<^verbatim>\<open>appIndex\<close>: the object
  \<^verbatim>\<open>createConfig\<close> returns, and the local constants of \<^verbatim>\<open>startServer\<close>.
  Each field carries the source's name with the suffix \<open>_of\<close>. In
  \<open>customBabelConfig_of\<close>, \<open>openPath_of\<close> and \<open>customMiddlewares_of\<close> the value
  \<open>None\<close> is the absent value: \<^verbatim>\<open>null\<close> in \<^verbatim>\<open>createConfig\<close> (its default),
  \<^verbatim>\<open>undefined\<close> in \<^verbatim>\<open>startServer\<close> (no default); the code only tests
  these for truthiness. In \<open>appIndex_of\<close> and \<open>appIndexDir_of\<close> it is
  \<^verbatim>\<open>undefined\<close>.
\<close>

record ('b, 'm) settings =
  port_of :: int
  hostname_of :: string
  rootDir_of :: string
  appIndexDir_of :: "string option"
  appIndex_of :: "string option"
  moduleDirectories_of :: "string list"
  nodeResolve_of :: bool
  readUserBabelConfig_of :: bool
  customBabelConfig_of :: "'b option"
  watch_of :: bool
  openBrowser_of :: bool
  openPath_of :: "string option"
  logStartup_of :: bool
  http2_of :: bool
  extraFileExtensions_of :: "string list"
  compatibilityMode_of :: string
  babelExclude_of :: "string list"
  babelModernExclude_of :: "string list"
  watchExcludes_of :: "string list"
  watchDebounce_of :: int
  customMiddlewares_of :: "'m list option"

text \<open>
  The block that resolves \<^verbatim>\<open>appIndex\<close> relative to \<^verbatim>\<open>rootDir\<close> and to a
  browser path; it stands in \<^verbatim>\<open>startServer\<close> and again, letter for letter, in
  \<^verbatim>\<open>createConfig\<close>. The result is the pair of \<^verbatim>\<open>appIndex\<close> and
  \<^verbatim>\<open>appIndexDir\<close> after the block. The guard \<^verbatim>\<open>if (appIndex)\<close> fails on
  \<^verbatim>\<open>undefined\<close> and on the empty string, which leave both variables as they are.
\<close>

definition resolveAppIndex ::
  "host \<Rightarrow> string \<Rightarrow> string option \<Rightarrow> string option \<times> string option" where
  "resolveAppIndex h root index =
     (case index of
        None \<Rightarrow> (None, None)
      | Some a \<Rightarrow>
          if a = [] then (Some a, None)
          else
            let a' =
              (if isAbsolute h a then ''/'' @ toBrowserPath h (relative h root a)
               else if \<not> startsWithSlash a then ''/'' @ toBrowserPath h a
               else toBrowserPath h a)
            in (Some a', Some (substring a' 0 (lastIndexOf a' CHR ''/''))))"

definition createConfig :: "host \<Rightarrow> ('b, 'm) config \<Rightarrow> ('b, 'm) settings" where
  "createConfig h config =
     (let root = orDefault (rootDir config) (cwd h);
          resolved = resolveAppIndex h root (appIndex config)
      in \<lparr> port_of = orDefault (port config) 8080,
           hostname_of = orDefault (hostname config) ''127.0.0.1'',
           rootDir_of = root,
           appIndexDir_of = snd resolved,
           appIndex_of = fst resolved,
           moduleDirectories_of = orDefault (moduleDirectories config) [''node_modules''],
           nodeResolve_of = orDefault (nodeResolve config) False,
           readUserBabelConfig_of = orDefault (readUserBabelConfig config) False,
           customBabelConfig_of = customBabelConfig config,
           watch_of = orDefault (watch config) False,
           openBrowser_of = orDefault (openBrowser config) False,
           openPath_of = openPath config,
           logStartup_of = orDefault (logStartup config) False,
           http2_of = orDefault (http2 config) False,
           extraFileExtensions_of = orDefault (extraFileExtensions config) [],
           compatibilityMode_of = orDefault (compatibilityMode config) modes_NONE,
           babelExclude_of = orDefault (babelExclude config) [],
           babelModernExclude_of = orDefault (babelModernExclude config) [],
           watchExcludes_of = orDefault (watchExcludes config) [''node_modules/**''],
           watchDebounce_of = orDefault (watchDebounce config) 1000,
           customMiddlewares_of = customMiddlewares config \<rparr>)"


section \<open>Starting the server\<close>

text \<open>
  The destructuring at the head of \<^verbatim>\<open>startServer\<close> and the resolution of
  \<^verbatim>\<open>appIndex\<close>: the local constants of the function before it validates the
  compatibility mode.
\<close>

definition startServerLocals :: "host \<Rightarrow> ('b, 'm) config \<Rightarrow> ('b, 'm) settings" where
  "startServerLocals h config =
     (let root = orDefault (rootDir config) (cwd h);
          resolved = resolveAppIndex h root (appIndex config)
      in \<lparr> port_of = orDefault (port config) 8080,
           hostname_of = orDefault (hostname config) ''127.0.0.1'',
           rootDir_of = root,
           appIndexDir_of = snd resolved,
           appIndex_of = fst resolved,
           moduleDirectories_of = orDefault (moduleDirectories config) [''node_modules''],
           nodeResolve_of = orDefault (nodeResolve config) False,
           readUserBabelConfig_of = orDefault (readUserBabelConfig config) False,
           customBabelConfig_of = customBabelConfig config,
           watch_of = orDefault (watch config) False,
           openBrowser_of = orDefault (openBrowser config) False,
           openPath_of = openPath config,
           logStartup_of = orDefault (logStartup config) False,
           http2_of = orDefault (http2 config) False,
           extraFileExtensions_of = orDefault (extraFileExtensions config) [],
           compatibilityMode_of = orDefault (compatibilityMode config) modes_NONE,
           babelExclude_of = orDefault (babelExclude config) [],
           babelModernExclude_of = orDefault (babelModernExclude config) [],
           watchExcludes_of = orDefault (watchExcludes config) [''node_modules/**''],
           watchDebounce_of = orDefault (watchDebounce config) 1000,
           customMiddlewares_of = customMiddlewares config \<rparr>)"

text \<open>
  The five \<^verbatim>\<open>setup...\<close> constants. The source computes them with \<^verbatim>\<open>||\<close> and
  \<^verbatim>\<open>&&\<close> on values of several types and only ever branches on them; the fields
  below hold their truthiness.
\<close>

record stageFlags =
  setupBabel :: bool
  setupCompatibility :: bool
  setupTransformIndexHTML :: bool
  setupHistoryFallback :: bool
  setupMessageChanel :: bool

definition deriveFlags :: "('b, 'm) settings \<Rightarrow> stageFlags" where
  "deriveFlags L =
     (let babel =
            (truthyObject (customBabelConfig_of L) \<or> nodeResolve_of L \<or>
             compatibilityMode_of L \<in> set [modes_ALL, modes_MODERN] \<or>
             readUserBabelConfig_of L);
          compatibility =
            (compatibilityMode_of L \<noteq> [] \<and> compatibilityMode_of L \<noteq> modes_NONE)
      in \<lparr> setupBabel = babel,
           setupCompatibility = compatibility,
           setupTransformIndexHTML = (babel \<or> compatibility),
           setupHistoryFallback = truthyString (appIndex_of L),
           setupMessageChanel = (watch_of L \<or> babel) \<rparr>)"

text \<open>
  The middlewares. Their factories are collaborators that the server only calls; a
  middleware is the factory together with the arguments it was given, in the order of
  the properties of the source's argument object. The watcher handed to the
  reload-browser middleware is the one watcher of the instance (field
  \<open>fileWatcher\<close> below) and is left out of the arguments.
\<close>

datatype ('b, 'm) middleware =
    isCustom: Custom 'm
  | isCache: CacheMiddleware
  | isEtag: KoaEtag
  | isMessageChannel: MessageChannelMiddleware string "string option"
  | isReloadBrowser: ReloadBrowserMiddleware string "string list" int
  | isBabel: BabelMiddleware string "string list" bool bool string "string list" "'b option"
      "string list" "string list"
  | isTransformIndexHTML: TransformIndexHTMLMiddleware string "string option" "string option"
  | isHistoryAPIFallback: HistoryAPIFallbackMiddleware "string option" "string option"
  | isStatic: KoaStatic string

text \<open>\<^verbatim>\<open>app.use(m)\<close> appends to the middleware stack of the Koa application.\<close>

definition use :: "('b, 'm) middleware \<Rightarrow> ('b, 'm) middleware list \<Rightarrow> ('b, 'm) middleware list" where
  "use m stack = stack @ [m]"

definition assemble :: "('b, 'm) settings \<Rightarrow> stageFlags \<Rightarrow> ('b, 'm) middleware list" where
  "assemble L F =
     (let a0 = [];
          a1 = (case customMiddlewares_of L of
                  None \<Rightarrow> a0
                | Some ms \<Rightarrow>
                    if 0 < length ms then foldl (\<lambda>a m. use (Custom m) a) a0 ms else a0);
          a2 = use CacheMiddleware a1;
          a3 = use KoaEtag a2;
          a4 = (if setupMessageChanel F
                then use (MessageChannelMiddleware (rootDir_of L) (appIndex_of L)) a3
                else a3);
          a5 = (if watch_of L
                then use (ReloadBrowserMiddleware (rootDir_of L) (watchExcludes_of L)
                            (watchDebounce_of L)) a4
                else a4);
          a6 = (if setupBabel F
                then use (BabelMiddleware (rootDir_of L) (moduleDirectories_of L)
                            (nodeResolve_of L) (readUserBabelConfig_of L)
                            (compatibilityMode_of L) (extraFileExtensions_of L)
                            (customBabelConfig_of L) (babelExclude_of L)
                            (babelModernExclude_of L)) a5
                else a5);
          a7 = (if setupTransformIndexHTML F
                then use (TransformIndexHTMLMiddleware (compatibilityMode_of L)
                            (appIndex_of L) (appIndexDir_of L)) a6
                else a6);
          a8 = (if setupHistoryFallback F
                then use (HistoryAPIFallbackMiddleware (appIndex_of L) (appIndexDir_of L)) a7
                else a7)
      in use (KoaStatic (rootDir_of L)) a8)"

text \<open>
  The file watcher (\<^verbatim>\<open>chokidar.watch(paths)\<close>) and what \<^verbatim>\<open>startServer\<close>
  leaves behind when it returns: \<open>app\<close> is the middleware stack of the Koa
  application, \<open>secure\<close> the \<^verbatim>\<open>http2\<close> argument of \<^verbatim>\<open>createHTTPServer\<close>,
  \<open>listening\<close> the port and host given to \<^verbatim>\<open>server.listen\<close>, \<open>listeners\<close>
  the closures registered with \<^verbatim>\<open>server.addListener\<close> under their event names,
  and \<open>fileWatcher\<close> the local constant of that name (\<open>None\<close> is \<^verbatim>\<open>null\<close>).
  The only closure the source registers is
  \<^verbatim>\<open>() => { if (fileWatcher) { fileWatcher.close(); } }\<close>.
\<close>

record watcher =
  watched :: "string list"
  closed :: bool

definition chokidarWatch :: "string list \<Rightarrow> watcher" where
  "chokidarWatch paths = \<lparr> watched = paths, closed = False \<rparr>"

datatype listener = CloseFileWatcher

record ('b, 'm) started =
  app :: "('b, 'm) middleware list"
  secure :: bool
  listening :: "(int \<times> string) option"
  listeners :: "(string \<times> listener) list"
  fileWatcher :: "watcher option"

fun runListener :: "listener \<Rightarrow> ('b, 'm) started \<Rightarrow> ('b, 'm) started" where
  "runListener CloseFileWatcher s =
     (case fileWatcher s of
        None \<Rightarrow> s
      | Some w \<Rightarrow> s\<lparr> fileWatcher := Some (w\<lparr> closed := True \<rparr>) \<rparr>)"

text \<open>The server emits an event: every listener registered for it runs, in order.\<close>

definition emit :: "string \<Rightarrow> ('b, 'm) started \<Rightarrow> ('b, 'm) started" where
  "emit event s =
     foldl (\<lambda>t (e, l). if e = event then runListener l t else t) s (listeners s)"

text \<open>
  The calls \<^verbatim>\<open>startServer\<close> makes on its collaborators, in program order, so that
  what has happened before a \<^verbatim>\<open>throw\<close> can be read off. The callback of
  \<^verbatim>\<open>listen\<close> (browser launch and startup banner) is outside the model.
\<close>

datatype ('b, 'm) call =
    NewKoa
  | ChokidarWatch "string list"
  | AppUse "('b, 'm) middleware"
  | CreateHTTPServer bool
  | ServerListen int string
  | ServerAddListener string

text \<open>
  \<^verbatim>\<open>startServer\<close> either throws (\<open>Inl\<close>, with the calls made until then) or
  returns (\<open>Inr\<close>). The check of the compatibility mode comes after the resolution
  of \<^verbatim>\<open>appIndex\<close> and before everything else. \<open>Error\<close> is \<^verbatim>\<open>new Error(message)\<close>;
  \<open>TypeError\<close> is what the runtime itself throws, its message left out.
\<close>

datatype error = Error string | TypeError

definition unknownMode :: "string \<Rightarrow> error" where
  "unknownMode m =
     Error (''Unknown compatibility mode: '' @ m @ ''. Must be one of: '' @
            join '','' compatibilityModesValues)"

definition startServer ::
  "host \<Rightarrow> ('b, 'm) config \<Rightarrow> ('b, 'm) call list \<times> (error + ('b, 'm) started)" where
  "startServer h config =
     (let L = startServerLocals h config
      in if compatibilityMode_of L \<notin> set compatibilityModesValues
         then ([], Inl (unknownMode (compatibilityMode_of L)))
         else
           let F = deriveFlags L;
               w = (if watch_of L then Some (chokidarWatch []) else None);
               stack = assemble L F
           in (NewKoa # (if watch_of L then [ChokidarWatch []] else []) @ map AppUse stack @
                 [CreateHTTPServer (http2_of L),
                  ServerListen (port_of L) (hostname_of L),
                  ServerAddListener ''close''],
               Inr \<lparr> app = stack,
                     secure = http2_of L,
                     listening = Some (port_of L, hostname_of L),
                     listeners = [(''close'', CloseFileWatcher)],
                     fileWatcher = w \<rparr>))"


text \<open>
  \<^verbatim>\<open>createConfig\<close> called on an argument that need not be an object. Its first
  statement is the destructuring \<^verbatim>\<open>const { port = 8080, ... } = config\<close>, which
  throws a \<^verbatim>\<open>TypeError\<close> when \<^verbatim>\<open>config\<close> is \<^verbatim>\<open>undefined\<close> (the call
  \<^verbatim>\<open>createConfig()\<close>) or \<^verbatim>\<open>null\<close>. On an object whose properties have their
  JSDoc types the body runs to its \<^verbatim>\<open>return\<close>: it holds no \<^verbatim>\<open>throw\<close>, and
  \<^verbatim>\<open>path.isAbsolute\<close>, \<^verbatim>\<open>path.relative\<close>, \<^verbatim>\<open>startsWith\<close>,
  \<^verbatim>\<open>substring\<close> and \<^verbatim>\<open>lastIndexOf\<close> are applied to strings. Objects with a
  property of another type (a number for \<^verbatim>\<open>appIndex\<close>, on which
  \<^verbatim>\<open>path.isAbsolute\<close> throws) are not represented.
\<close>

datatype 'c argument = Undefined | Null | Object 'c

definition createConfigOn ::
  "host \<Rightarrow> ('b, 'm) config argument \<Rightarrow> error + ('b, 'm) settings" where
  "createConfigOn h arg =
     (case arg of
        Undefined \<Rightarrow> Inl TypeError
      | Null \<Rightarrow> Inl TypeError
      | Object config \<Rightarrow> Inr (createConfig h config))"

text \<open>The empty object literal \<^verbatim>\<open>{}\<close>: a configuration with every property omitted.\<close>

definition emptyConfig :: "('b, 'm) config" where
  "emptyConfig =
     \<lparr> port = None, hostname = None, rootDir = None, appIndex = None,
       moduleDirectories = None, nodeResolve = None, readUserBabelConfig = None,
       watch = None, openBrowser = None, openPath = None, logStartup = None,
       http2 = None, compatibilityMode = None, watchExcludes = None,
       watchDebounce = None, customBabelConfig = None, extraFileExtensions = None,
       babelExclude = None, babelModernExclude = None, customMiddlewares = None \<rparr>"


section \<open>Auxiliary facts\<close>

lemma createConfig_startServerLocals: "createConfig h c = startServerLocals h c"
  by (simp add: createConfig_def startServerLocals_def)

lemma locals_appIndex:
  "appIndex_of (startServerLocals h c) =
     fst (resolveAppIndex h (orDefault (rootDir c) (cwd h)) (appIndex c))"
  and locals_appIndexDir:
  "appIndexDir_of (startServerLocals h c) =
     snd (resolveAppIndex h (orDefault (rootDir c) (cwd h)) (appIndex c))"
  by (simp_all add: startServerLocals_def Let_def)

lemma lastIndexOf_bounds: "- 1 \<le> lastIndexOf s c \<and> lastIndexOf s c < int (length s)"
  by (induction s) (auto simp: Let_def)

lemma lastIndexOf_absent: "c \<notin> set s \<Longrightarrow> lastIndexOf s c = - 1"
  by (induction s) (auto simp: Let_def)

lemma lastIndexOf_present: "c \<in> set s \<Longrightarrow> 0 \<le> lastIndexOf s c"
  by (induction s) (auto simp: Let_def)

lemma lastIndexOf_split:
  "c \<in> set s \<Longrightarrow>
     s = take (nat (lastIndexOf s c)) s @ c # drop (Suc (nat (lastIndexOf s c))) s \<and>
     c \<notin> set (drop (Suc (nat (lastIndexOf s c))) s)"
proof (induction s)
  case Nil
  then show ?case by simp
next
  case (Cons x xs)
  show ?case
  proof (cases "c \<in> set xs")
    case True
    with Cons.IH have ih:
      "xs = take (nat (lastIndexOf xs c)) xs @ c # drop (Suc (nat (lastIndexOf xs c))) xs"
      "c \<notin> set (drop (Suc (nat (lastIndexOf xs c))) xs)" by simp_all
    from True have nn: "0 \<le> lastIndexOf xs c" by (rule lastIndexOf_present)
    then have n: "nat (lastIndexOf xs c + 1) = Suc (nat (lastIndexOf xs c))" by simp
    from nn n ih show ?thesis by (simp add: Let_def)
  next
    case False
    then have "lastIndexOf xs c = - 1" by (rule lastIndexOf_absent)
    moreover from False Cons.prems have "x = c" by simp
    ultimately show ?thesis using False by (simp add: Let_def)
  qed
qed

lemma substring_from_0: "i < int (length s) \<Longrightarrow> substring s 0 i = take (nat i) s"
proof -
  assume "i < int (length s)"
  then have "nat i \<le> length s" by arith
  then show ?thesis by (simp add: substring_def Let_def min_def)
qed

lemma foldl_use_Custom: "foldl (\<lambda>a m. use (Custom m) a) a0 ms = a0 @ map Custom ms"
  by (induction ms arbitrary: a0) (simp_all add: use_def)

lemma assemble_stages:
  "assemble L F =
     map Custom (orDefault (customMiddlewares_of L) []) @
     [CacheMiddleware, KoaEtag] @
     (if setupMessageChanel F
      then [MessageChannelMiddleware (rootDir_of L) (appIndex_of L)] else []) @
     (if watch_of L
      then [ReloadBrowserMiddleware (rootDir_of L) (watchExcludes_of L) (watchDebounce_of L)]
      else []) @
     (if setupBabel F
      then [BabelMiddleware (rootDir_of L) (moduleDirectories_of L) (nodeResolve_of L)
              (readUserBabelConfig_of L) (compatibilityMode_of L) (extraFileExtensions_of L)
              (customBabelConfig_of L) (babelExclude_of L) (babelModernExclude_of L)]
      else []) @
     (if setupTransformIndexHTML F
      then [TransformIndexHTMLMiddleware (compatibilityMode_of L) (appIndex_of L)
              (appIndexDir_of L)]
      else []) @
     (if setupHistoryFallback F
      then [HistoryAPIFallbackMiddleware (appIndex_of L) (appIndexDir_of L)] else []) @
     [KoaStatic (rootDir_of L)]"
proof -
  have customs:
    "(case customMiddlewares_of L of
        None \<Rightarrow> []
      | Some ms \<Rightarrow> if 0 < length ms then foldl (\<lambda>a m. use (Custom m) a) [] ms else []) =
     map Custom (orDefault (customMiddlewares_of L) [])"
    by (simp add: foldl_use_Custom orDefault_def split: option.splits)
  show ?thesis
    unfolding assemble_def Let_def customs by (simp add: use_def)
qed

lemma startServer_started:
  assumes "startServer h c = (calls, Inr s)"
  shows "compatibilityMode_of (startServerLocals h c) \<in> set compatibilityModesValues"
    and "app s = assemble (startServerLocals h c) (deriveFlags (startServerLocals h c))"
    and "fileWatcher s =
           (if watch_of (startServerLocals h c) then Some (chokidarWatch []) else None)"
    and "listeners s = [(''close'', CloseFileWatcher)]"
    and "listening s = Some (port_of (startServerLocals h c), hostname_of (startServerLocals h c))"
    and "calls =
           NewKoa # (if watch_of (startServerLocals h c) then [ChokidarWatch []] else []) @
           map AppUse (app s) @
           [CreateHTTPServer (http2_of (startServerLocals h c)),
            ServerListen (port_of (startServerLocals h c)) (hostname_of (startServerLocals h c)),
            ServerAddListener ''close'']"
  using assms by (auto simp: startServer_def Let_def split: if_splits)

lemma locals_watch: "watch_of (startServerLocals h c) \<longleftrightarrow> watch c = Some True"
  by (cases "watch c") (simp_all add: startServerLocals_def Let_def orDefault_def)

lemma AppUse_calls:
  "[m. AppUse m \<leftarrow> NewKoa # ws @ map AppUse ms @ rest] =
     [m. AppUse m \<leftarrow> ws] @ ms @ [m. AppUse m \<leftarrow> rest]"
  by (induction ms) simp_all

lemma ChokidarWatch_calls: "[p. ChokidarWatch p \<leftarrow> map AppUse ms] = []"
  by (induction ms) simp_all

lemma locals_customMiddlewares:
  "customMiddlewares_of (startServerLocals h c) = customMiddlewares c"
  by (simp add: startServerLocals_def Let_def)

lemma dir_split:
  assumes "CHR ''/'' \<in> set s"
  shows "\<exists>base. s = substring s 0 (lastIndexOf s CHR ''/'') @ ''/'' @ base \<and>
                CHR ''/'' \<notin> set base"
proof -
  have "lastIndexOf s CHR ''/'' < int (length s)"
    using lastIndexOf_bounds [of s "CHR ''/''"] by simp
  then have sub: "substring s 0 (lastIndexOf s CHR ''/'') = take (nat (lastIndexOf s CHR ''/'')) s"
    by (rule substring_from_0)
  from lastIndexOf_split [OF assms] show ?thesis
    unfolding sub by (intro exI [of _ "drop (Suc (nat (lastIndexOf s CHR ''/''))) s"]) simp
qed

lemma toBrowserPath_slash:
  "startsWithSlash a \<Longrightarrow> CHR ''/'' \<in> set (toBrowserPath h a)"
  by (cases a) (auto simp: startsWithSlash_def toBrowserPath_def)

lemma resolveAppIndex_dir:
  assumes "a \<noteq> []"
  shows "\<exists>a' base. resolveAppIndex h root (Some a) =
             (Some a', Some (substring a' 0 (lastIndexOf a' CHR ''/''))) \<and>
           a' = substring a' 0 (lastIndexOf a' CHR ''/'') @ ''/'' @ base \<and>
           CHR ''/'' \<notin> set base"
proof -
  define a' where "a' =
    (if isAbsolute h a then ''/'' @ toBrowserPath h (relative h root a)
     else if \<not> startsWithSlash a then ''/'' @ toBrowserPath h a
     else toBrowserPath h a)"
  have "CHR ''/'' \<in> set a'"
    by (auto simp: a'_def toBrowserPath_slash)
  from dir_split [OF this] obtain base where
    "a' = substring a' 0 (lastIndexOf a' CHR ''/'') @ ''/'' @ base" "CHR ''/'' \<notin> set base"
    by blast
  moreover from assms have "resolveAppIndex h root (Some a) =
      (Some a', Some (substring a' 0 (lastIndexOf a' CHR ''/'')))"
    by (simp add: resolveAppIndex_def a'_def Let_def)
  ultimately show ?thesis by blast
qed

lemmas eval_defs =
  startServer_def startServerLocals_def createConfig_def deriveFlags_def assemble_def
  resolveAppIndex_def orDefault_def truthyString_def truthyObject_def startsWithSlash_def
  compatibilityModesValues_def modes_NONE_def modes_MODERN_def modes_ALL_def
  unknownMode_def use_def chokidarWatch_def emptyConfig_def toBrowserPath_def
  substring_def posix_def posixIsAbsolute_def posixRelative_def posixResolve_def
  emit_def Let_def


section \<open>The claims\<close>

text \<open>
  C1. The stage flags that \<^verbatim>\<open>startServer\<close> derives, for every host and every
  configuration, read on the configuration as given (\<open>mode\<close> is
  \<^verbatim>\<open>compatibilityMode\<close> after its default): \<^verbatim>\<open>setupBabel\<close> holds exactly when
  a custom Babel configuration is provided, or \<^verbatim>\<open>nodeResolve\<close> is true, or the mode
  is \<^verbatim>\<open>all\<close> or \<^verbatim>\<open>modern\<close>, or \<^verbatim>\<open>readUserBabelConfig\<close> is true;
  \<^verbatim>\<open>setupCompatibility\<close> holds exactly when the mode is not \<^verbatim>\<open>none\<close> (the flags
  are derived only once the mode has passed validation);
  \<^verbatim>\<open>setupTransformIndexHTML\<close> is the disjunction of the two;
  \<^verbatim>\<open>setupMessageChanel\<close> is \<^verbatim>\<open>watch\<close> or \<^verbatim>\<open>setupBabel\<close>. In particular
  \<^verbatim>\<open>nodeResolve\<close> alone sets \<^verbatim>\<open>setupBabel\<close>, whatever the mode. These are the
  flags the pipeline of a started server is assembled from.
\<close>

theorem C1_stage_flags:
  "(let F = deriveFlags (startServerLocals h c);
        mode = orDefault (compatibilityMode c) ''none''
    in (setupBabel F \<longleftrightarrow>
          customBabelConfig c \<noteq> None \<or> nodeResolve c = Some True \<or>
          mode = ''all'' \<or> mode = ''modern'' \<or> readUserBabelConfig c = Some True) \<and>
       (mode \<in> {''none'', ''modern'', ''all''} \<longrightarrow>
          (setupCompatibility F \<longleftrightarrow> mode \<noteq> ''none'')) \<and>
       (setupTransformIndexHTML F \<longleftrightarrow> setupBabel F \<or> setupCompatibility F) \<and>
       (setupMessageChanel F \<longleftrightarrow> watch c = Some True \<or> setupBabel F) \<and>
       (nodeResolve c = Some True \<longrightarrow> setupBabel F) \<and>
       (\<forall>calls s. startServer h c = (calls, Inr s) \<longrightarrow>
          app s = assemble (startServerLocals h c) F))"
  by (cases "customBabelConfig c"; cases "nodeResolve c"; cases "compatibilityMode c";
      cases "readUserBabelConfig c"; cases "watch c")
     (auto simp: startServer_def startServerLocals_def deriveFlags_def Let_def orDefault_def
        truthyObject_def modes_NONE_def modes_MODERN_def modes_ALL_def
        compatibilityModesValues_def split: if_splits)

theorem C1_stage_flags_witness:
  "(let c = emptyConfig\<lparr> nodeResolve := Some True, compatibilityMode := Some ''modern'' \<rparr>
            :: (unit, unit) config;
        F = deriveFlags (startServerLocals (posix ''/srv'') c)
    in orDefault (compatibilityMode c) ''none'' \<in> {''none'', ''modern'', ''all''} \<and>
       nodeResolve c = Some True \<and>
       setupBabel F \<and> setupCompatibility F \<and> setupTransformIndexHTML F \<and>
       setupMessageChanel F \<and>
       (\<exists>calls s. startServer (posix ''/srv'') c = (calls, Inr s) \<and>
          app s = assemble (startServerLocals (posix ''/srv'') c) F))"
  using C1_stage_flags [of "posix ''/srv''"
      "emptyConfig\<lparr> nodeResolve := Some True, compatibilityMode := Some ''modern'' \<rparr>
         :: (unit, unit) config"]
  by (simp add: eval_defs)

text \<open>
  C2, as amended. For every non-empty \<^verbatim>\<open>appIndex\<close>, in \<^verbatim>\<open>startServer\<close> and in
  \<^verbatim>\<open>createConfig\<close> alike: an absolute path becomes a slash followed by the browser
  form of the path relative to \<^verbatim>\<open>rootDir\<close>; a path that is not absolute and does
  not start with a slash becomes a slash followed by its browser form; a path that
  starts with a slash is absolute for the POSIX path module and therefore falls under
  the first rule (it is not passed through); and \<^verbatim>\<open>appIndexDir\<close> is the part of
  the resolved \<^verbatim>\<open>appIndex\<close> before its last slash.
\<close>

theorem C2_appIndex_normalization:
  assumes "appIndex c = Some a" and "a \<noteq> []"
  shows "(let root = orDefault (rootDir c) (cwd h); L = startServerLocals h c
          in appIndex_of (createConfig h c) = appIndex_of L \<and>
             appIndexDir_of (createConfig h c) = appIndexDir_of L \<and>
             (isAbsolute h a \<longrightarrow>
                appIndex_of L = Some (''/'' @ toBrowserPath h (relative h root a))) \<and>
             (\<not> isAbsolute h a \<and> \<not> startsWithSlash a \<longrightarrow>
                appIndex_of L = Some (''/'' @ toBrowserPath h a)) \<and>
             (isAbsolute h = posixIsAbsolute \<and> startsWithSlash a \<longrightarrow>
                appIndex_of L = Some (''/'' @ toBrowserPath h (relative h root a))) \<and>
             (\<exists>a' d base. appIndex_of L = Some a' \<and> appIndexDir_of L = Some d \<and>
                a' = d @ ''/'' @ base \<and> CHR ''/'' \<notin> set base))"
proof -
  have same: "createConfig h c = startServerLocals h c"
    by (rule createConfig_startServerLocals)
  have abs: "appIndex_of (startServerLocals h c) =
      Some (''/'' @ toBrowserPath h (relative h (orDefault (rootDir c) (cwd h)) a))"
    if "isAbsolute h a"
    using that assms by (simp add: locals_appIndex resolveAppIndex_def Let_def)
  have rel: "appIndex_of (startServerLocals h c) = Some (''/'' @ toBrowserPath h a)"
    if "\<not> isAbsolute h a" "\<not> startsWithSlash a"
    using that assms by (simp add: locals_appIndex resolveAppIndex_def Let_def)
  have px: "isAbsolute h a" if "isAbsolute h = posixIsAbsolute" "startsWithSlash a"
    using that by (simp add: posixIsAbsolute_def startsWithSlash_def)
  from resolveAppIndex_dir [OF assms(2), of h "orDefault (rootDir c) (cwd h)"]
  have dir: "\<exists>a' d base. appIndex_of (startServerLocals h c) = Some a' \<and>
      appIndexDir_of (startServerLocals h c) = Some d \<and>
      a' = d @ ''/'' @ base \<and> CHR ''/'' \<notin> set base"
    unfolding locals_appIndex locals_appIndexDir assms(1) by auto
  from same abs rel px dir show ?thesis
    unfolding Let_def by auto
qed

theorem C2_appIndex_normalization_witness:
  "appIndex (emptyConfig\<lparr> rootDir := Some ''/app'', appIndex := Some ''/app/src/index.html'' \<rparr>
      :: (unit, unit) config) = Some ''/app/src/index.html'' \<and>
   ''/app/src/index.html'' \<noteq> [] \<and>
   isAbsolute (posix ''/srv'') = posixIsAbsolute \<and>
   isAbsolute (posix ''/srv'') ''/app/src/index.html'' \<and>
   startsWithSlash ''/app/src/index.html'' \<and>
   appIndex_of (startServerLocals (posix ''/srv'')
      (emptyConfig\<lparr> rootDir := Some ''/app'', appIndex := Some ''/app/src/index.html'' \<rparr>
        :: (unit, unit) config)) = Some ''/src/index.html'' \<and>
   appIndexDir_of (createConfig (posix ''/srv'')
      (emptyConfig\<lparr> rootDir := Some ''/app'', appIndex := Some ''/app/src/index.html'' \<rparr>
        :: (unit, unit) config)) = Some ''/src'' \<and>
   appIndex (emptyConfig\<lparr> appIndex := Some ''demo/index.html'' \<rparr> :: (unit, unit) config)
     = Some ''demo/index.html'' \<and>
   \<not> isAbsolute (posix ''/srv'') ''demo/index.html'' \<and>
   \<not> startsWithSlash ''demo/index.html'' \<and>
   appIndex_of (startServerLocals (posix ''/srv'')
      (emptyConfig\<lparr> appIndex := Some ''demo/index.html'' \<rparr> :: (unit, unit) config))
     = Some ''/demo/index.html'' \<and>
   appIndexDir_of (createConfig (posix ''/srv'')
      (emptyConfig\<lparr> appIndex := Some ''demo/index.html'' \<rparr> :: (unit, unit) config))
     = Some ''/demo''"
  using C2_appIndex_normalization
    [of "emptyConfig\<lparr> rootDir := Some ''/app'', appIndex := Some ''/app/src/index.html'' \<rparr>
           :: (unit, unit) config" "''/app/src/index.html''" "posix ''/srv''"]
    C2_appIndex_normalization
    [of "emptyConfig\<lparr> appIndex := Some ''demo/index.html'' \<rparr> :: (unit, unit) config"
        "''demo/index.html''" "posix ''/srv''"]
  by (simp add: eval_defs)

text \<open>
  C2 as stated fails: with \<^verbatim>\<open>rootDir\<close> \<^verbatim>\<open>/app\<close> on a POSIX host, the
  \<^verbatim>\<open>appIndex\<close> \<^verbatim>\<open>/index.html\<close> starts with a slash and yet is not passed through
  unchanged; it resolves to \<^verbatim>\<open>/../index.html\<close>.
\<close>

theorem C2_counterexample:
  "startsWithSlash ''/index.html'' \<and>
   appIndex_of (startServerLocals (posix ''/home/user'')
      (emptyConfig\<lparr> rootDir := Some ''/app'', appIndex := Some ''/index.html'' \<rparr>
        :: (unit, unit) config)) = Some ''/../index.html'' \<and>
   appIndex_of (createConfig (posix ''/home/user'')
      (emptyConfig\<lparr> rootDir := Some ''/app'', appIndex := Some ''/index.html'' \<rparr>
        :: (unit, unit) config)) \<noteq> Some ''/index.html''"
  by (simp add: createConfig_startServerLocals locals_appIndex resolveAppIndex_def Let_def
      emptyConfig_def orDefault_def startsWithSlash_def posix_def posixIsAbsolute_def
      posixRelative_def posixResolve_def toBrowserPath_def)

text \<open>
  C3. A configuration whose \<^verbatim>\<open>compatibilityMode\<close> is none of \<^verbatim>\<open>none\<close>,
  \<^verbatim>\<open>modern\<close>, \<^verbatim>\<open>all\<close> makes \<^verbatim>\<open>startServer\<close> throw an error whose message
  names the value and the allowed modes; no collaborator has been called by then, in
  particular \<^verbatim>\<open>listen\<close> has not.
\<close>

theorem C3_unknown_mode:
  assumes "compatibilityMode c = Some m"
    and "m \<notin> {''none'', ''modern'', ''all''}"
  shows "startServer h c =
           ([], Inl (Error (''Unknown compatibility mode: '' @ m @
                            ''. Must be one of: none,modern,all''))) \<and>
         (\<forall>p n. ServerListen p n \<notin> set (fst (startServer h c)))"
  using assms
  by (simp add: startServer_def startServerLocals_def Let_def orDefault_def
      compatibilityModesValues_def modes_NONE_def modes_MODERN_def modes_ALL_def
      unknownMode_def)

theorem C3_unknown_mode_witness:
  "compatibilityMode (emptyConfig\<lparr> compatibilityMode := Some ''esm'' \<rparr> :: (unit, unit) config)
     = Some ''esm'' \<and>
   ''esm'' \<notin> {''none'', ''modern'', ''all''} \<and>
   startServer (posix ''/srv'') (emptyConfig\<lparr> compatibilityMode := Some ''esm'' \<rparr> :: (unit, unit) config) =
     ([], Inl (Error ''Unknown compatibility mode: esm. Must be one of: none,modern,all''))"
  using C3_unknown_mode [of "emptyConfig\<lparr> compatibilityMode := Some ''esm'' \<rparr> :: (unit, unit) config"
      "''esm''" "posix ''/srv''"]
  by (simp add: emptyConfig_def)

text \<open>
  C4. When \<^verbatim>\<open>startServer\<close> starts a server, the middleware stack of the application
  is, in this order: the custom middlewares in their given order, the cache middleware,
  the etag middleware, the message channel, the reload-browser middleware, the Babel
  middleware, the index-HTML transform, the history fallback, and last the static file
  server. The calls of \<^verbatim>\<open>app.use\<close> were made in that order. Each of the five
  conditional stages occurs in the stack exactly when its flag (\<^verbatim>\<open>watch\<close> for the
  reload-browser middleware) is set; with \<^verbatim>\<open>setupMessageChanel\<close> unset the stack holds
  no message-channel middleware at all.
\<close>

theorem C4_pipeline_order:
  assumes "startServer h c = (calls, Inr s)"
  shows "(let L = startServerLocals h c; F = deriveFlags L
          in app s =
               map Custom (orDefault (customMiddlewares c) []) @
               [CacheMiddleware, KoaEtag] @
               (if setupMessageChanel F
                then [MessageChannelMiddleware (rootDir_of L) (appIndex_of L)] else []) @
               (if watch_of L
                then [ReloadBrowserMiddleware (rootDir_of L) (watchExcludes_of L)
                        (watchDebounce_of L)]
                else []) @
               (if setupBabel F
                then [BabelMiddleware (rootDir_of L) (moduleDirectories_of L) (nodeResolve_of L)
                        (readUserBabelConfig_of L) (compatibilityMode_of L)
                        (extraFileExtensions_of L) (customBabelConfig_of L) (babelExclude_of L)
                        (babelModernExclude_of L)]
                else []) @
               (if setupTransformIndexHTML F
                then [TransformIndexHTMLMiddleware (compatibilityMode_of L) (appIndex_of L)
                        (appIndexDir_of L)]
                else []) @
               (if setupHistoryFallback F
                then [HistoryAPIFallbackMiddleware (appIndex_of L) (appIndexDir_of L)] else []) @
               [KoaStatic (rootDir_of L)] \<and>
             [m. AppUse m \<leftarrow> calls] = app s \<and>
             ((\<exists>m \<in> set (app s). isMessageChannel m) \<longleftrightarrow> setupMessageChanel F) \<and>
             ((\<exists>m \<in> set (app s). isReloadBrowser m) \<longleftrightarrow> watch_of L) \<and>
             ((\<exists>m \<in> set (app s). isBabel m) \<longleftrightarrow> setupBabel F) \<and>
             ((\<exists>m \<in> set (app s). isTransformIndexHTML m) \<longleftrightarrow> setupTransformIndexHTML F) \<and>
             ((\<exists>m \<in> set (app s). isHistoryAPIFallback m) \<longleftrightarrow> setupHistoryFallback F))"
proof -
  note st = startServer_started [OF assms]
  have stack: "app s =
      map Custom (orDefault (customMiddlewares c) []) @
      [CacheMiddleware, KoaEtag] @
      (if setupMessageChanel (deriveFlags (startServerLocals h c))
       then [MessageChannelMiddleware (rootDir_of (startServerLocals h c))
               (appIndex_of (startServerLocals h c))] else []) @
      (if watch_of (startServerLocals h c)
       then [ReloadBrowserMiddleware (rootDir_of (startServerLocals h c))
               (watchExcludes_of (startServerLocals h c))
               (watchDebounce_of (startServerLocals h c))]
       else []) @
      (if setupBabel (deriveFlags (startServerLocals h c))
       then [BabelMiddleware (rootDir_of (startServerLocals h c))
               (moduleDirectories_of (startServerLocals h c))
               (nodeResolve_of (startServerLocals h c))
               (readUserBabelConfig_of (startServerLocals h c))
               (compatibilityMode_of (startServerLocals h c))
               (extraFileExtensions_of (startServerLocals h c))
               (customBabelConfig_of (startServerLocals h c))
               (babelExclude_of (startServerLocals h c))
               (babelModernExclude_of (startServerLocals h c))]
       else []) @
      (if setupTransformIndexHTML (deriveFlags (startServerLocals h c))
       then [TransformIndexHTMLMiddleware (compatibilityMode_of (startServerLocals h c))
               (appIndex_of (startServerLocals h c)) (appIndexDir_of (startServerLocals h c))]
       else []) @
      (if setupHistoryFallback (deriveFlags (startServerLocals h c))
       then [HistoryAPIFallbackMiddleware (appIndex_of (startServerLocals h c))
               (appIndexDir_of (startServerLocals h c))] else []) @
      [KoaStatic (rootDir_of (startServerLocals h c))]"
    unfolding st(2) assemble_stages locals_customMiddlewares ..
  have uses: "[m. AppUse m \<leftarrow> calls] = app s"
    by (subst st(6), subst AppUse_calls) simp
  have mc: "(\<exists>m \<in> set (app s). isMessageChannel m) \<longleftrightarrow>
      setupMessageChanel (deriveFlags (startServerLocals h c))"
    by (subst stack) auto
  have rb: "(\<exists>m \<in> set (app s). isReloadBrowser m) \<longleftrightarrow> watch_of (startServerLocals h c)"
    by (subst stack) auto
  have bb: "(\<exists>m \<in> set (app s). isBabel m) \<longleftrightarrow>
      setupBabel (deriveFlags (startServerLocals h c))"
    by (subst stack) auto
  have ti: "(\<exists>m \<in> set (app s). isTransformIndexHTML m) \<longleftrightarrow>
      setupTransformIndexHTML (deriveFlags (startServerLocals h c))"
    by (subst stack) auto
  have hf: "(\<exists>m \<in> set (app s). isHistoryAPIFallback m) \<longleftrightarrow>
      setupHistoryFallback (deriveFlags (startServerLocals h c))"
    by (subst stack) auto
  from stack uses mc rb bb ti hf show ?thesis
    unfolding Let_def by (intro conjI)
qed

theorem C4_pipeline_order_witness:
  "\<exists>calls s. startServer (posix ''/srv'')
       (emptyConfig\<lparr> rootDir := Some ''/app'', appIndex := Some ''index.html'',
                     watch := Some True, compatibilityMode := Some ''all'',
                     customMiddlewares := Some [1, 2] \<rparr> :: (unit, nat) config) = (calls, Inr s) \<and>
     app s =
       [Custom 1, Custom 2, CacheMiddleware, KoaEtag,
        MessageChannelMiddleware ''/app'' (Some ''/index.html''),
        ReloadBrowserMiddleware ''/app'' [''node_modules/**''] 1000,
        BabelMiddleware ''/app'' [''node_modules''] False False ''all'' [] None [] [],
        TransformIndexHTMLMiddleware ''all'' (Some ''/index.html'') (Some ''''),
        HistoryAPIFallbackMiddleware (Some ''/index.html'') (Some ''''),
        KoaStatic ''/app''] \<and>
     [m. AppUse m \<leftarrow> calls] = app s"
proof -
  have "\<exists>calls s. startServer (posix ''/srv'')
       (emptyConfig\<lparr> rootDir := Some ''/app'', appIndex := Some ''index.html'',
                     watch := Some True, compatibilityMode := Some ''all'',
                     customMiddlewares := Some [1, 2] \<rparr> :: (unit, nat) config) = (calls, Inr s)"
    by (simp add: eval_defs)
  then obtain calls s where run: "startServer (posix ''/srv'')
       (emptyConfig\<lparr> rootDir := Some ''/app'', appIndex := Some ''index.html'',
                     watch := Some True, compatibilityMode := Some ''all'',
                     customMiddlewares := Some [1, 2] \<rparr> :: (unit, nat) config) = (calls, Inr s)"
    by blast
  from C4_pipeline_order [OF run]
  have "app s =
       [Custom 1, Custom 2, CacheMiddleware, KoaEtag,
        MessageChannelMiddleware ''/app'' (Some ''/index.html''),
        ReloadBrowserMiddleware ''/app'' [''node_modules/**''] 1000,
        BabelMiddleware ''/app'' [''node_modules''] False False ''all'' [] None [] [],
        TransformIndexHTMLMiddleware ''all'' (Some ''/index.html'') (Some ''''),
        HistoryAPIFallbackMiddleware (Some ''/index.html'') (Some ''''),
        KoaStatic ''/app''] \<and>
     [m. AppUse m \<leftarrow> calls] = app s"
    by (simp add: startServerLocals_def deriveFlags_def resolveAppIndex_def orDefault_def
        truthyString_def truthyObject_def startsWithSlash_def modes_NONE_def modes_MODERN_def
        modes_ALL_def emptyConfig_def toBrowserPath_def substring_def posix_def
        posixIsAbsolute_def Let_def)
  with run show ?thesis by blast
qed

text \<open>
  C5. For \<^verbatim>\<open>{rootDir: "/app", appIndex: "index.html", watch: true}\<close> on a POSIX host,
  whatever its working directory: \<^verbatim>\<open>appIndex\<close> resolves to \<^verbatim>\<open>/index.html\<close>,
  \<^verbatim>\<open>appIndexDir\<close> to the empty string, \<^verbatim>\<open>setupHistoryFallback\<close> and
  \<^verbatim>\<open>setupMessageChanel\<close> are truthy, and the server starts with the pipeline shown.
\<close>

theorem C5_scenario:
  "appIndex_of (startServerLocals (posix wd)
      (emptyConfig\<lparr> rootDir := Some ''/app'', appIndex := Some ''index.html'',
                    watch := Some True \<rparr>)) = Some ''/index.html'' \<and>
   appIndexDir_of (startServerLocals (posix wd)
      (emptyConfig\<lparr> rootDir := Some ''/app'', appIndex := Some ''index.html'',
                    watch := Some True \<rparr>)) = Some '''' \<and>
   setupHistoryFallback (deriveFlags (startServerLocals (posix wd)
      (emptyConfig\<lparr> rootDir := Some ''/app'', appIndex := Some ''index.html'',
                    watch := Some True \<rparr>))) \<and>
   setupMessageChanel (deriveFlags (startServerLocals (posix wd)
      (emptyConfig\<lparr> rootDir := Some ''/app'', appIndex := Some ''index.html'',
                    watch := Some True \<rparr>))) \<and>
   snd (startServer (posix wd)
      (emptyConfig\<lparr> rootDir := Some ''/app'', appIndex := Some ''index.html'',
                    watch := Some True \<rparr>)) =
     Inr \<lparr> app = [CacheMiddleware, KoaEtag,
                   MessageChannelMiddleware ''/app'' (Some ''/index.html''),
                   ReloadBrowserMiddleware ''/app'' [''node_modules/**''] 1000,
                   HistoryAPIFallbackMiddleware (Some ''/index.html'') (Some ''''),
                   KoaStatic ''/app''],
           secure = False, listening = Some (8080, ''127.0.0.1''),
           listeners = [(''close'', CloseFileWatcher)],
           fileWatcher = Some \<lparr> watched = [], closed = False \<rparr> \<rparr>"
  by (simp add: eval_defs)

text \<open>
  C6. Whenever \<^verbatim>\<open>appIndex\<close> is set, \<^verbatim>\<open>appIndexDir\<close> is a defined string after
  resolution, in \<^verbatim>\<open>startServer\<close> and in \<^verbatim>\<open>createConfig\<close>. Set is what the guard
  \<^verbatim>\<open>if (appIndex)\<close> of both functions accepts: a non-empty string. (The empty string
  is falsy; C9 is about it.)
\<close>

theorem C6_appIndexDir_defined:
  assumes "appIndex c = Some a" and "a \<noteq> []"
  shows "(\<exists>d. appIndexDir_of (startServerLocals h c) = Some d) \<and>
         (\<exists>d. appIndexDir_of (createConfig h c) = Some d)"
  using assms
  by (simp add: createConfig_startServerLocals locals_appIndexDir resolveAppIndex_def Let_def)

theorem C6_appIndexDir_defined_witness:
  "appIndex (emptyConfig\<lparr> appIndex := Some ''src/index.html'' \<rparr> :: (unit, unit) config)
     = Some ''src/index.html'' \<and>
   ''src/index.html'' \<noteq> [] \<and>
   appIndexDir_of (startServerLocals (posix ''/srv'')
      (emptyConfig\<lparr> appIndex := Some ''src/index.html'' \<rparr> :: (unit, unit) config))
     = Some ''/src'' \<and>
   appIndexDir_of (createConfig (posix ''/srv'')
      (emptyConfig\<lparr> appIndex := Some ''src/index.html'' \<rparr> :: (unit, unit) config))
     = Some ''/src''"
  using C6_appIndexDir_defined
    [of "emptyConfig\<lparr> appIndex := Some ''src/index.html'' \<rparr> :: (unit, unit) config"
        "''src/index.html''" "posix ''/srv''"]
  by (simp add: eval_defs)

text \<open>
  C7. Each omitted property takes its default, in \<^verbatim>\<open>startServer\<close> and in
  \<^verbatim>\<open>createConfig\<close>: port 8080, hostname \<^verbatim>\<open>127.0.0.1\<close>, \<^verbatim>\<open>rootDir\<close> the working
  directory of the process, \<^verbatim>\<open>moduleDirectories\<close> \<^verbatim>\<open>["node_modules"]\<close>,
  \<^verbatim>\<open>watch\<close> false, \<^verbatim>\<open>compatibilityMode\<close> \<^verbatim>\<open>none\<close>, \<^verbatim>\<open>watchDebounce\<close> 1000, and
  \<^verbatim>\<open>watchExcludes\<close> the one glob \<^verbatim>\<open>node_modules/**\<close>.
\<close>

theorem C7_defaults:
  "(port c = None \<longrightarrow>
      port_of (startServerLocals h c) = 8080 \<and> port_of (createConfig h c) = 8080) \<and>
   (hostname c = None \<longrightarrow>
      hostname_of (startServerLocals h c) = ''127.0.0.1'' \<and>
      hostname_of (createConfig h c) = ''127.0.0.1'') \<and>
   (rootDir c = None \<longrightarrow>
      rootDir_of (startServerLocals h c) = cwd h \<and> rootDir_of (createConfig h c) = cwd h) \<and>
   (moduleDirectories c = None \<longrightarrow>
      moduleDirectories_of (startServerLocals h c) = [''node_modules''] \<and>
      moduleDirectories_of (createConfig h c) = [''node_modules'']) \<and>
   (watch c = None \<longrightarrow>
      watch_of (startServerLocals h c) = False \<and> watch_of (createConfig h c) = False) \<and>
   (compatibilityMode c = None \<longrightarrow>
      compatibilityMode_of (startServerLocals h c) = ''none'' \<and>
      compatibilityMode_of (createConfig h c) = ''none'') \<and>
   (watchDebounce c = None \<longrightarrow>
      watchDebounce_of (startServerLocals h c) = 1000 \<and>
      watchDebounce_of (createConfig h c) = 1000) \<and>
   (watchExcludes c = None \<longrightarrow>
      watchExcludes_of (startServerLocals h c) = [''node_modules/**''] \<and>
      watchExcludes_of (createConfig h c) = [''node_modules/**''])"
  by (simp add: startServerLocals_def createConfig_def Let_def orDefault_def modes_NONE_def)

theorem C7_defaults_witness:
  "port (emptyConfig :: (unit, unit) config) = None \<and>
   hostname (emptyConfig :: (unit, unit) config) = None \<and>
   rootDir (emptyConfig :: (unit, unit) config) = None \<and>
   moduleDirectories (emptyConfig :: (unit, unit) config) = None \<and>
   watch (emptyConfig :: (unit, unit) config) = None \<and>
   compatibilityMode (emptyConfig :: (unit, unit) config) = None \<and>
   watchDebounce (emptyConfig :: (unit, unit) config) = None \<and>
   watchExcludes (emptyConfig :: (unit, unit) config) = None \<and>
   port_of (startServerLocals (posix ''/srv'') (emptyConfig :: (unit, unit) config)) = 8080 \<and>
   hostname_of (createConfig (posix ''/srv'') (emptyConfig :: (unit, unit) config))
     = ''127.0.0.1'' \<and>
   rootDir_of (createConfig (posix ''/srv'') (emptyConfig :: (unit, unit) config)) = ''/srv'' \<and>
   moduleDirectories_of (startServerLocals (posix ''/srv'') (emptyConfig :: (unit, unit) config))
     = [''node_modules''] \<and>
   watch_of (startServerLocals (posix ''/srv'') (emptyConfig :: (unit, unit) config)) = False \<and>
   compatibilityMode_of (createConfig (posix ''/srv'') (emptyConfig :: (unit, unit) config))
     = ''none'' \<and>
   watchDebounce_of (createConfig (posix ''/srv'') (emptyConfig :: (unit, unit) config)) = 1000 \<and>
   watchExcludes_of (startServerLocals (posix ''/srv'') (emptyConfig :: (unit, unit) config))
     = [''node_modules/**'']"
  using C7_defaults [of "emptyConfig :: (unit, unit) config" "posix ''/srv''"]
  by (simp add: emptyConfig_def posix_def)

text \<open>
  C8. A started server has a file watcher exactly when \<^verbatim>\<open>watch\<close> is true;
  \<^verbatim>\<open>chokidar.watch\<close> is then called once, with no paths, and otherwise not at all.
  When the server emits \<^verbatim>\<open>close\<close>, the watcher, if there is one, is closed; with
  \<^verbatim>\<open>watch\<close> false \<^verbatim>\<open>fileWatcher\<close> is \<^verbatim>\<open>null\<close> before and after.
\<close>

theorem C8_watcher_lifecycle:
  assumes "startServer h c = (calls, Inr s)"
  shows "fileWatcher s =
           (if watch c = Some True then Some \<lparr> watched = [], closed = False \<rparr> else None) \<and>
         [p. ChokidarWatch p \<leftarrow> calls] = (if watch c = Some True then [[]] else []) \<and>
         fileWatcher (emit ''close'' s) =
           (if watch c = Some True then Some \<lparr> watched = [], closed = True \<rparr> else None)"
proof -
  note st = startServer_started [OF assms]
  have w: "fileWatcher s =
      (if watch c = Some True then Some \<lparr> watched = [], closed = False \<rparr> else None)"
    by (simp add: st(3) locals_watch chokidarWatch_def)
  have k: "[p. ChokidarWatch p \<leftarrow> calls] = (if watch c = Some True then [[]] else [])"
    by (subst st(6)) (simp add: locals_watch ChokidarWatch_calls)
  have e: "fileWatcher (emit ''close'' s) =
      (if watch c = Some True then Some \<lparr> watched = [], closed = True \<rparr> else None)"
    by (simp add: emit_def st(4) w)
  from w k e show ?thesis by simp
qed

theorem C8_watcher_lifecycle_witness:
  "\<exists>calls s. startServer (posix ''/srv'')
       (emptyConfig\<lparr> watch := Some True \<rparr> :: (unit, unit) config) = (calls, Inr s) \<and>
     fileWatcher s = Some \<lparr> watched = [], closed = False \<rparr> \<and>
     [p. ChokidarWatch p \<leftarrow> calls] = [[]] \<and>
     fileWatcher (emit ''close'' s) = Some \<lparr> watched = [], closed = True \<rparr>"
proof -
  have "\<exists>calls s. startServer (posix ''/srv'')
       (emptyConfig\<lparr> watch := Some True \<rparr> :: (unit, unit) config) = (calls, Inr s)"
    by (simp add: eval_defs)
  then obtain calls s where run: "startServer (posix ''/srv'')
       (emptyConfig\<lparr> watch := Some True \<rparr> :: (unit, unit) config) = (calls, Inr s)"
    by blast
  from C8_watcher_lifecycle [OF run]
  have "fileWatcher s = Some \<lparr> watched = [], closed = False \<rparr> \<and>
     [p. ChokidarWatch p \<leftarrow> calls] = [[]] \<and>
     fileWatcher (emit ''close'' s) = Some \<lparr> watched = [], closed = True \<rparr>"
    by (simp add: emptyConfig_def)
  with run show ?thesis by blast
qed

text \<open>
  C9. With \<^verbatim>\<open>appIndex\<close> the empty string, \<^verbatim>\<open>startServer\<close> leaves
  \<^verbatim>\<open>appIndex\<close> as it is and \<^verbatim>\<open>appIndexDir\<close> undefined,
  \<^verbatim>\<open>setupHistoryFallback\<close> is falsy, and a server that starts has no history
  fallback middleware in its stack.
\<close>

theorem C9_empty_appIndex:
  assumes "appIndex c = Some []"
  shows "appIndex_of (startServerLocals h c) = Some [] \<and>
         appIndexDir_of (startServerLocals h c) = None \<and>
         \<not> setupHistoryFallback (deriveFlags (startServerLocals h c)) \<and>
         (\<forall>calls s x y. startServer h c = (calls, Inr s) \<longrightarrow>
            HistoryAPIFallbackMiddleware x y \<notin> set (app s))"
proof -
  from assms have a: "appIndex_of (startServerLocals h c) = Some []"
    and d: "appIndexDir_of (startServerLocals h c) = None"
    by (simp_all add: locals_appIndex locals_appIndexDir resolveAppIndex_def)
  from a have f: "\<not> setupHistoryFallback (deriveFlags (startServerLocals h c))"
    by (simp add: deriveFlags_def Let_def truthyString_def)
  have "HistoryAPIFallbackMiddleware x y \<notin> set (app s)"
    if "startServer h c = (calls, Inr s)" for calls s x y
  proof -
    from that have "app s = assemble (startServerLocals h c) (deriveFlags (startServerLocals h c))"
      by (rule startServer_started)
    with f show ?thesis
      by (auto simp: assemble_stages)
  qed
  with a d f show ?thesis by blast
qed

theorem C9_empty_appIndex_witness:
  "appIndex (emptyConfig\<lparr> appIndex := Some '''' \<rparr> :: (unit, unit) config) = Some [] \<and>
   appIndexDir_of (startServerLocals (posix ''/srv'')
      (emptyConfig\<lparr> appIndex := Some '''' \<rparr> :: (unit, unit) config)) = None \<and>
   (\<exists>calls s. startServer (posix ''/srv'')
        (emptyConfig\<lparr> appIndex := Some '''' \<rparr> :: (unit, unit) config) = (calls, Inr s) \<and>
      app s = [CacheMiddleware, KoaEtag, KoaStatic ''/srv''])"
  using C9_empty_appIndex
    [of "emptyConfig\<lparr> appIndex := Some '''' \<rparr> :: (unit, unit) config" "posix ''/srv''"]
  by (simp add: eval_defs)

text \<open>
  C10, as amended. On every configuration object of the JSDoc type
  \<^verbatim>\<open>createConfig\<close> returns and does not throw, and the \<^verbatim>\<open>compatibilityMode\<close> of
  the result is the one it was given (\<^verbatim>\<open>none\<close> when omitted), also when that is
  none of \<^verbatim>\<open>none\<close>, \<^verbatim>\<open>modern\<close>, \<^verbatim>\<open>all\<close>; on such a configuration it is
  \<^verbatim>\<open>startServer\<close> that throws the unknown-mode error.
\<close>

theorem C10_createConfig_on_objects:
  "(\<exists>r. createConfigOn h (Object c) = Inr r \<and>
        compatibilityMode_of r = orDefault (compatibilityMode c) ''none'') \<and>
   (\<forall>m. compatibilityMode c = Some m \<and> m \<notin> {''none'', ''modern'', ''all''} \<longrightarrow>
        snd (startServer h c) = Inl (unknownMode m))"
proof -
  have "compatibilityMode_of (createConfig h c) = orDefault (compatibilityMode c) ''none''"
    by (simp add: createConfig_def Let_def modes_NONE_def)
  then have returns: "\<exists>r. createConfigOn h (Object c) = Inr r \<and>
      compatibilityMode_of r = orDefault (compatibilityMode c) ''none''"
    by (simp add: createConfigOn_def)
  have throws: "snd (startServer h c) = Inl (unknownMode m)"
    if "compatibilityMode c = Some m" "m \<notin> {''none'', ''modern'', ''all''}" for m
    using that
    by (simp add: startServer_def startServerLocals_def Let_def orDefault_def
        compatibilityModesValues_def modes_NONE_def modes_MODERN_def modes_ALL_def)
  from returns throws show ?thesis by blast
qed

theorem C10_createConfig_on_objects_witness:
  "compatibilityMode (emptyConfig\<lparr> compatibilityMode := Some ''esm'' \<rparr> :: (unit, unit) config)
     = Some ''esm'' \<and>
   ''esm'' \<notin> {''none'', ''modern'', ''all''} \<and>
   (\<exists>r. createConfigOn (posix ''/srv'')
         (Object (emptyConfig\<lparr> compatibilityMode := Some ''esm'' \<rparr> :: (unit, unit) config))
           = Inr r \<and>
        compatibilityMode_of r = ''esm'') \<and>
   snd (startServer (posix ''/srv'')
      (emptyConfig\<lparr> compatibilityMode := Some ''esm'' \<rparr> :: (unit, unit) config)) =
     Inl (Error ''Unknown compatibility mode: esm. Must be one of: none,modern,all'')"
  using C10_createConfig_on_objects
    [of "posix ''/srv''"
        "emptyConfig\<lparr> compatibilityMode := Some ''esm'' \<rparr> :: (unit, unit) config"]
  by (simp add: emptyConfig_def orDefault_def unknownMode_def compatibilityModesValues_def
      modes_NONE_def modes_MODERN_def modes_ALL_def)

text \<open>
  C10 as stated fails: \<^verbatim>\<open>createConfig\<close> does raise on some input. Called on
  \<^verbatim>\<open>undefined\<close> it throws a \<^verbatim>\<open>TypeError\<close> at its destructuring and returns
  nothing.
\<close>

theorem C10_counterexample:
  "createConfigOn (posix ''/srv'') (Undefined :: (unit, unit) config argument) = Inl TypeError \<and>
   \<not> (\<exists>r. createConfigOn (posix ''/srv'') (Undefined :: (unit, unit) config argument) = Inr r)"
  by (simp add: createConfigOn_def)

end
